theory Spec2Isabelle
  imports Complex_Main "HOL-Library.Log_Nat"
begin

section \<open>Values and errors\<close>

text \<open>
  The exceptions that \<open>kerastuner/engine/instance.py\<close> can raise, as values. The string
  is the name (or message) the exception carries.
\<close>

datatype error =
    AttributeError string
  | NameError string
  | UnboundLocalError string
  | TypeError string
  | KeyError string
  | ConfigurationError string
  | TrainingError string

text \<open>
  The training input \<open>x\<close> of \<open>Instance.fit\<close>: either a \<open>tf.keras.utils.Sequence\<close>, whose
  \<open>len\<close> is the number of batches, or anything else that has a length (an array).
\<close>

datatype training_input = Sequence nat | Array nat

text \<open>
  The keyword arguments that \<open>fit\<close> reads. \<open>None\<close> is an absent key. The validation data
  is a pair (inputs, labels), of which only the lengths matter here. The validation
  split is a Python float, held as the rational number that the float is exactly.
\<close>

record kwargs =
  kw_batch_size :: "int option"
  kw_validation_data :: "(nat \<times> nat) option"
  kw_validation_split :: "rat option"

text \<open>Python's \<open>int(q)\<close> truncates towards zero.\<close>

definition py_int :: "rat \<Rightarrow> int" where
  "py_int q = (if 0 \<le> q then \<lfloor>q\<rfloor> else \<lceil>q\<rceil>)"

section \<open>Python floats\<close>

text \<open>
  A Python float is an IEEE 754 binary64 number: a multiple of \<open>2 ^ j\<close> with fewer than
  \<open>2 ^ 53\<close> units, where \<open>j\<close> is at least \<open>-1074\<close>. Every float operation gives the exact
  result rounded to the nearest such number, a tie going to the even multiple.
  \<open>round_even\<close> rounds to an integer in that way. For a positive \<open>q\<close>, \<open>bit_exponent q\<close>
  is the \<open>e\<close> with \<open>2 ^ (e - 1) \<le> q < 2 ^ e\<close>, found from the bit lengths of numerator
  and denominator. \<open>round_double q\<close> is the float nearest to \<open>q\<close>: the result of an
  operation whose exact result is \<open>q\<close>, the float that a literal \<open>q\<close> denotes, and the
  float that an integer \<open>q\<close> is converted to. Magnitudes from \<open>2 ^ 1024\<close> on, where
  Python has an infinity or raises \<open>OverflowError\<close>, are rounded like the others.
\<close>

definition round_even :: "rat \<Rightarrow> int" where
  "round_even r =
     (let f = \<lfloor>r\<rfloor>; d = r - of_int f
      in if d < 1 / 2 then f else if 1 / 2 < d then f + 1 else if even f then f else f + 1)"

definition bit_exponent :: "rat \<Rightarrow> int" where
  "bit_exponent q =
     (let e0 = bitlen (fst (quotient_of q)) - bitlen (snd (quotient_of q))
      in if q < 2 powi e0 then e0 else e0 + 1)"

definition round_pos :: "rat \<Rightarrow> rat" where
  "round_pos q =
     (let u = 2 powi (max (bit_exponent q - 53) (- 1074))
      in of_int (round_even (q / u)) * u)"

definition round_double :: "rat \<Rightarrow> rat" where
  "round_double q = (if q < 0 then - round_pos (- q) else if q = 0 then 0 else round_pos q)"

section \<open>Instance.fit: training and validation sizes\<close>

text \<open>\<open>kwargs.get('batch_size', 32)\<close>\<close>

definition get_batch_size :: "kwargs \<Rightarrow> int" where
  "get_batch_size kw = (case kw_batch_size kw of None \<Rightarrow> 32 | Some b \<Rightarrow> b)"

text \<open>Lines 57 to 61: the training size before any validation split.\<close>

definition derive_training_size :: "training_input \<Rightarrow> int \<Rightarrow> int" where
  "derive_training_size x b =
     (case x of
        Sequence l \<Rightarrow> (int l + 2) * b
      | Array n \<Rightarrow> int n)"

text \<open>
  Lines 64 to 74: the pair (training size, validation size) from the training size
  derived so far. A validation pair is truthy; a split of zero is falsy and falls to the
  last branch. In the split branch the integer training size is converted to a float
  for the product of line 68 and for the difference of line 70, and each of the two
  operations rounds. Both sizes go through \<open>int\<close> at the end, which leaves integers as
  they are.
\<close>

definition validation_sizing :: "kwargs \<Rightarrow> int \<Rightarrow> int \<times> int" where
  "validation_sizing kw t0 =
     (case kw_validation_data kw of
        Some (nx, ny) \<Rightarrow> (t0, int ny)
      | None \<Rightarrow>
          (case kw_validation_split kw of
             None \<Rightarrow> (t0, 0)
           | Some s \<Rightarrow>
               if s = 0 then (t0, 0)
               else
                 let val_size = round_double (round_double (of_int t0) * s);
                     training_size' = round_double (round_double (of_int t0) - val_size)
                 in (py_int training_size', py_int val_size)))"

section \<open>Collaborators of Instance\<close>

text \<open>
  A metric or loss identifier of the model: a bare name (\<open>str\<close>) or an object that
  exposes \<open>.name\<close>. Lines 85 to 88 and 103 to 106 take the name of either.
\<close>

datatype ident = Str string | Obj string

fun ident_name :: "ident \<Rightarrow> string" where
  "ident_name (Str s) = s"
| "ident_name (Obj s) = s"

text \<open>
  \<open>model.loss\<close>: a single name, a mapping of named losses, a list of losses, or a single
  object that is none of these (a callable).
\<close>

datatype loss_decl =
    LossStr string
  | LossDict "(string \<times> ident) list"
  | LossList "ident list"
  | LossObj string

text \<open>A value that the code only passes on, held in its printed form.\<close>

type_synonym payload = string

record Model =
  metrics :: "ident list"
  loss :: loss_decl
  loss_weights :: payload

text \<open>
  Modelled from the spec: the class \<open>Metric\<close> of \<open>kerastuner/engine/metric.py\<close>, which
  is not among the sources. A metric is a name with a direction (\<open>'min'\<close> or \<open>'max'\<close>) and
  the flag that marks the search objective. \<open>Metric_init n d\<close> is \<open>Metric(n, d)\<close>.
\<close>

record Metric =
  name :: string
  direction :: string
  is_objective :: bool

definition Metric_init :: "string \<Rightarrow> string \<Rightarrow> Metric" where
  "Metric_init n d = \<lparr>name = n, direction = d, is_objective = False\<rparr>"

text \<open>
  Modelled from the spec: the class \<open>MetricsCollection\<close> of \<open>kerastuner/collections\<close>,
  which is not among the sources. It is an ordered mapping from names to metrics, in
  first-seen order. The spec leaves open whether adding a name twice is rejected or
  overwrites; the policy is a parameter, so that nothing below depends on the choice.
  A bare name is added with direction \<open>'max'\<close>; an object is added under its name.
  \<open>set_objective\<close> fails when the name is absent. \<open>to_config\<close> is the ordered list of the
  entries, from which \<open>from_config\<close> builds a collection again.
\<close>

type_synonym MetricsCollection = "Metric list"

datatype dup_policy = Reject | Overwrite

definition add :: "dup_policy \<Rightarrow> Metric \<Rightarrow> MetricsCollection \<Rightarrow> error + MetricsCollection" where
  "add pol m c =
     (if name m \<in> set (map name c)
      then (case pol of
              Reject \<Rightarrow> Inl (ConfigurationError (''Duplicate metric:'' @ name m))
            | Overwrite \<Rightarrow> Inr (map (\<lambda>m'. if name m' = name m then m else m') c))
      else Inr (c @ [m]))"

definition add_ident :: "dup_policy \<Rightarrow> ident \<Rightarrow> MetricsCollection \<Rightarrow> error + MetricsCollection" where
  "add_ident pol i c = add pol (Metric_init (ident_name i) ''max'') c"

definition set_objective :: "string \<Rightarrow> MetricsCollection \<Rightarrow> error + MetricsCollection" where
  "set_objective n c =
     (if n \<in> set (map name c)
      then Inr (map (\<lambda>m. m\<lparr>is_objective := (name m = n)\<rparr>) c)
      else Inl (ConfigurationError (''objective not in metric list:'' @ n)))"

type_synonym config = "(string \<times> string \<times> bool) list"

definition to_config :: "MetricsCollection \<Rightarrow> config" where
  "to_config c = map (\<lambda>m. (name m, direction m, is_objective m)) c"

definition from_config :: "config \<Rightarrow> MetricsCollection" where
  "from_config cfg = map (\<lambda>(n, d, ob). \<lparr>name = n, direction = d, is_objective = ob\<rparr>) cfg"

text \<open>
  Collections are objects: a state holds a reference to one, and \<open>add\<close> changes it in
  place. The store is the list of the collections allocated so far, a reference is an
  index into it.
\<close>

type_synonym ref = nat

text \<open>
  Modelled from the spec: \<open>InstanceState\<close> and the tuner state of \<open>kerastuner/states\<close>,
  which are not among the sources, with the fields that \<open>instance.py\<close> reads or writes.
\<close>

record InstanceState =
  batch_size :: int
  training_size :: int
  validation_size :: int
  agg_metrics :: "ref option"
  execution_trained :: int

record TunerState =
  objective :: string
  tuner_agg_metrics :: "ref option"
  display_model :: bool

text \<open>
  Modelled from the spec: an \<open>Execution\<close> of \<open>kerastuner/engine/execution.py\<close>, which is
  not among the sources, with the fields that \<open>instance.py\<close> reads. \<open>ex_metrics\<close> maps a
  metric name to its minimum and maximum over the run. \<open>ex_model\<close> is \<open>None\<close> once
  \<open>del execution.model\<close> has run.
\<close>

record Execution =
  ex_idx :: nat
  ex_model :: "Model option"
  ex_metrics :: "(string \<times> rat \<times> rat) list"
  num_epochs :: int
  history :: payload
  ex_meta_data :: payload

text \<open>
  What is outside \<open>instance.py\<close> and decides a call of \<open>fit\<close>: the duplicate policy of
  the collections, the constructor of \<open>Execution\<close> and its \<open>fit\<close>, which trains the model
  and may raise. Neither changes the instance, its state or the tuner state.
\<close>

record Collaborators =
  dup :: dup_policy
  Execution_init :: "Model \<Rightarrow> InstanceState \<Rightarrow> TunerState \<Rightarrow> config option \<Rightarrow> Execution"
  Execution_fit :: "Execution \<Rightarrow> training_input \<Rightarrow> kwargs \<Rightarrow> error + Execution"

text \<open>
  The record that \<open>record_results\<close> builds. \<open>meta_data\<close> is a dictionary, of which the
  code reads four entries; \<open>None\<close> is a missing key (for \<open>md_server\<close>, \<open>Some None\<close> is a
  \<open>'server'\<close> entry without \<open>'local_dir'\<close>).
\<close>

record MetaData =
  md_server :: "string option option"
  md_project :: "string option"
  md_architecture :: "string option"
  md_instance :: "string option"

record Stats =
  s_min :: rat
  s_max :: rat
  s_mean :: rat
  s_median :: rat

record execution_info =
  ei_num_epochs :: int
  ei_history :: payload
  ei_loss_fn :: loss_decl
  ei_loss_weights :: payload
  ei_meta_data :: payload

record Results =
  res_info :: payload
  res_executions :: "execution_info list"
  res_meta_data :: MetaData
  res_metrics :: "(string \<times> (string \<times> Stats) list) list"
  res_key_metrics :: "(string \<times> rat) list option"

text \<open>
  The attributes that \<open>Instance.__init__\<close> sets (lines 19 to 26); the cloud service is
  only handed on. \<open>results\<close> is the attribute that line 211 creates.
\<close>

record Instance =
  model :: Model
  state :: InstanceState
  metrics_config :: "config option"
  executions :: "(nat \<times> Execution) list"
  results :: "Results option"

text \<open>What instances share: the store of collections and the tuner state.\<close>

record Shared =
  heap :: "MetricsCollection list"
  tuner_state :: TunerState

text \<open>
  Python's truth value of \<open>agg_metrics\<close>: \<open>None\<close> is false, and so is a collection that
  holds nothing (collections have a length, as line 119 uses).
\<close>

definition truthy :: "MetricsCollection list \<Rightarrow> ref option \<Rightarrow> bool" where
  "truthy h ro = (case ro of None \<Rightarrow> False | Some r \<Rightarrow> h ! r \<noteq> [])"

section \<open>Instance.fit: schema initialisation\<close>

text \<open>
  Lines 81 to 90: every metric of the model, and its \<open>val_\<close> twin when the validation
  size is not zero. The result is the error raised, if any, and the collection as it
  stands at that point.
\<close>

fun add_model_metrics ::
  "dup_policy \<Rightarrow> bool \<Rightarrow> ident list \<Rightarrow> MetricsCollection \<Rightarrow> error option \<times> MetricsCollection" where
  "add_model_metrics pol v [] c = (None, c)"
| "add_model_metrics pol v (metric # rest) c =
     (case add_ident pol metric c of
        Inl e \<Rightarrow> (Some e, c)
      | Inr c1 \<Rightarrow>
          if v then
            (case add_ident pol (Str (''val_'' @ ident_name metric)) c1 of
               Inl e \<Rightarrow> (Some e, c1)
             | Inr c2 \<Rightarrow> add_model_metrics pol v rest c2)
          else add_model_metrics pol v rest c1)"

text \<open>
  Lines 93 to 98. In the \<open>dict\<close> branch the right-hand side reads the local variable
  \<open>losses\<close> before anything is assigned to it. A single object reaches the \<open>for\<close> of
  line 100, which cannot iterate over it.
\<close>

definition resolve_losses :: "loss_decl \<Rightarrow> error + ident list" where
  "resolve_losses l =
     (case l of
        LossDict kvs \<Rightarrow> Inl (UnboundLocalError ''losses'')
      | LossStr s \<Rightarrow> Inr [Str ''loss'']
      | LossList ls \<Rightarrow> Inr ls
      | LossObj ob \<Rightarrow> Inl (TypeError ''object is not iterable''))"

text \<open>Lines 100 to 108: every loss as a \<open>'min'\<close> metric, and its \<open>val_\<close> twin.\<close>

fun add_losses ::
  "dup_policy \<Rightarrow> bool \<Rightarrow> ident list \<Rightarrow> MetricsCollection \<Rightarrow> error option \<times> MetricsCollection" where
  "add_losses pol v [] c = (None, c)"
| "add_losses pol v (l # rest) c =
     (case add pol (Metric_init (ident_name l) ''min'') c of
        Inl e \<Rightarrow> (Some e, c)
      | Inr c1 \<Rightarrow>
          if v then
            (case add pol (Metric_init (''val_'' @ ident_name l) ''min'') c1 of
               Inl e \<Rightarrow> (Some e, c1)
             | Inr c2 \<Rightarrow> add_losses pol v rest c2)
          else add_losses pol v rest c1)"

text \<open>
  Lines 77 to 116. The new collection is allocated first and changed in place, so what
  was added before an exception stays in the state. The result is the exception, if
  any, and the shared state and the instance as the block leaves them.
\<close>

definition init_schema :: "dup_policy \<Rightarrow> Shared \<times> Instance \<Rightarrow> error option \<times> Shared \<times> Instance" where
  "init_schema pol w =
     (case w of (sh, i) \<Rightarrow>
        if truthy (heap sh) (agg_metrics (state i)) then (None, sh, i)
        else
          let r = length (heap sh);
              sh0 = sh\<lparr>heap := heap sh @ [[]]\<rparr>;
              i0 = i\<lparr>state := (state i)\<lparr>agg_metrics := Some r\<rparr>\<rparr>;
              v = (validation_size (state i) \<noteq> 0);
              store = (\<lambda>c. sh0\<lparr>heap := (heap sh0)[r := c]\<rparr>)
          in
            (case add_model_metrics pol v (metrics (model i)) [] of
               (Some e, c) \<Rightarrow> (Some e, store c, i0)
             | (None, c1) \<Rightarrow>
                 (case resolve_losses (loss (model i)) of
                    Inl e \<Rightarrow> (Some e, store c1, i0)
                  | Inr losses \<Rightarrow>
                      (case add_losses pol v losses c1 of
                         (Some e, c) \<Rightarrow> (Some e, store c, i0)
                       | (None, c2) \<Rightarrow>
                           (case set_objective (objective (tuner_state sh)) c2 of
                              Inl e \<Rightarrow> (Some e, store c2, i0)
                            | Inr c3 \<Rightarrow>
                                let cfg = to_config c3;
                                    sh1 = store c3;
                                    i1 = i0\<lparr>metrics_config := Some cfg\<rparr>
                                in
                                  if truthy (heap sh1) (tuner_agg_metrics (tuner_state sh1))
                                  then (None, sh1, i1)
                                  else
                                    (None,
                                     sh1\<lparr>heap := heap sh1 @ [from_config cfg],
                                         tuner_state := (tuner_state sh1)
                                           \<lparr>tuner_agg_metrics := Some (length (heap sh1))\<rparr>\<rparr>,
                                     i1))))))"

section \<open>Instance.fit\<close>

text \<open>
  Lines 51 to 137: the sizes of lines 51 to 74 (\<open>set_sizes\<close>), the schema, the
  execution. The announcement of lines 119 to 124 only prints. The execution is put
  into the collection before it is trained, and \<open>execution_trained\<close> counts only the
  runs that returned. \<open>fit_calls\<close> is a caller that calls \<open>fit\<close> of one instance again and
  again, whatever each call returns or raises.
\<close>

definition set_sizes :: "training_input \<Rightarrow> kwargs \<Rightarrow> Instance \<Rightarrow> Instance" where
  "set_sizes x kw i =
     (let b = get_batch_size kw;
          sizes = validation_sizing kw (derive_training_size x b)
      in i\<lparr>state := (state i)
           \<lparr>batch_size := b, training_size := fst sizes, validation_size := snd sizes\<rparr>\<rparr>)"

definition fit ::
  "Collaborators \<Rightarrow> training_input \<Rightarrow> kwargs \<Rightarrow> Shared \<times> Instance
     \<Rightarrow> (error + Execution) \<times> Shared \<times> Instance" where
  "fit cb x kw w =
     (case w of (sh, i) \<Rightarrow>
          (case init_schema (dup cb) (sh, set_sizes x kw i) of
             (Some e, w') \<Rightarrow> (Inl e, w')
           | (None, sh2, i2) \<Rightarrow>
               let execution = Execution_init cb (model i2) (state i2) (tuner_state sh2)
                                 (metrics_config i2);
                   i3 = i2\<lparr>executions := executions i2 @ [(ex_idx execution, execution)]\<rparr>
               in
                 (case Execution_fit cb execution x kw of
                    Inl e \<Rightarrow> (Inl e, sh2, i3)
                  | Inr trained \<Rightarrow>
                      (Inr trained, sh2,
                       i3\<lparr>executions := executions i2 @ [(ex_idx execution, trained)],
                          state := (state i3)
                            \<lparr>execution_trained := execution_trained (state i3) + 1\<rparr>\<rparr>))))"

fun fit_calls ::
  "Collaborators \<Rightarrow> (training_input \<times> kwargs) list \<Rightarrow> Shared \<times> Instance \<Rightarrow> Shared \<times> Instance" where
  "fit_calls cb [] w = w"
| "fit_calls cb (call # rest) w = fit_calls cb rest (snd (fit cb (fst call) (snd call) w))"

section \<open>Instance.record_results\<close>

text \<open>
  \<open>record_results\<close> uses names that \<open>instance.py\<close> neither defines nor imports. What
  each of them resolves to when the method runs is a parameter: \<open>None\<close> (or \<open>False\<close>) is
  a name that is not bound.
  \<^item> \<open>get_instance_info\<close>: the method \<open>self.__get_instance_info\<close>, which Python looks up
    as \<open>_Instance__get_instance_info\<close>; it returns a dictionary, of which \<open>info\<close> stands
    for the entries that the code does not touch and \<open>info_key_metrics\<close> for its
    \<open>'key_metrics'\<close> entry, if it has one;
  \<^item> \<open>meta_data\<close>, \<open>key_metrics\<close>, \<open>backend\<close>: attributes of the instance (a backend is
    \<open>Some True\<close>, a false value such as \<open>None\<close> is \<open>Some False\<close>);
  \<^item> \<open>clear_gpu_memory\<close>: the method \<open>self._clear_gpu_memory\<close>;
  \<^item> \<open>np\<close>, \<open>file_io\<close>: global names of the module; \<open>np\<close> gives the four statistics.
\<close>

record InstanceInfo =
  info :: payload
  info_key_metrics :: "(string \<times> rat) list option"

record Numpy =
  np_min :: "rat list \<Rightarrow> rat"
  np_max :: "rat list \<Rightarrow> rat"
  np_mean :: "rat list \<Rightarrow> rat"
  np_median :: "rat list \<Rightarrow> rat"

record Bindings =
  get_instance_info :: "(Instance \<Rightarrow> InstanceInfo) option"
  meta_data :: "MetaData option"
  clear_gpu_memory :: bool
  np :: "Numpy option"
  key_metrics :: "(string \<times> string) list option"
  file_io :: bool
  backend :: "bool option"

text \<open>The names as \<open>instance.py\<close> binds them: none of them is bound.\<close>

definition module_bindings :: Bindings where
  "module_bindings =
     \<lparr>get_instance_info = None, meta_data = None, clear_gpu_memory = False, np = None,
      key_metrics = None, file_io = False, backend = None\<rparr>"

text \<open>What a call leaves outside the process.\<close>

datatype effect = FileWrite string Results | BackendSend Results

text \<open>
  Lines 149 and 155 to 158: \<open>exec_metrics\<close> maps a metric name to the list of the
  minima and the list of the maxima seen so far, in first-seen order of the names;
  a name that is not there yet starts with two empty lists.
\<close>

type_synonym exec_metrics = "(string \<times> rat list \<times> rat list) list"

fun append_at :: "string \<Rightarrow> rat \<Rightarrow> rat \<Rightarrow> exec_metrics \<Rightarrow> exec_metrics" where
  "append_at metric mn mx [] = [(metric, [mn], [mx])]"
| "append_at metric mn mx ((k, mins, maxs) # rest) =
     (if k = metric then (k, mins @ [mn], maxs @ [mx]) # rest
      else (k, mins, maxs) # append_at metric mn mx rest)"

text \<open>\<open>json.dumps\<close> of a loss descriptor succeeds when no object is in it.\<close>

fun is_str :: "ident \<Rightarrow> bool" where
  "is_str (Str s) = True"
| "is_str (Obj s) = False"

definition json_serializable :: "loss_decl \<Rightarrow> bool" where
  "json_serializable l =
     (case l of
        LossStr s \<Rightarrow> True
      | LossDict kvs \<Rightarrow> list_all (\<lambda>kv. is_str (snd kv)) kvs
      | LossList ls \<Rightarrow> list_all is_str ls
      | LossObj ob \<Rightarrow> False)"

text \<open>
  Lines 160 to 164: the loss descriptor if \<open>json.dumps\<close> takes it, and the marker
  otherwise. Lines 167 to 173: the entry of one execution.
\<close>

definition reported_loss :: "loss_decl \<Rightarrow> loss_decl" where
  "reported_loss l = (if json_serializable l then l else LossStr ''CUSTOM'')"

definition make_execution_info :: "Execution \<Rightarrow> Model \<Rightarrow> execution_info" where
  "make_execution_info execution m =
     \<lparr>ei_num_epochs = num_epochs execution,
      ei_history = history execution,
      ei_loss_fn = reported_loss (loss m),
      ei_loss_weights = loss_weights m,
      ei_meta_data = ex_meta_data execution\<rparr>"

text \<open>
  Lines 154 to 178, the body of the loop for one execution. When the model of the
  execution is gone, the \<open>except\<close> of line 163 swallows the first failure and line 171
  raises the second. The model is deleted before line 178 runs.
\<close>

definition record_execution ::
  "Bindings \<Rightarrow> Execution \<Rightarrow> exec_metrics \<Rightarrow> (error + exec_metrics \<times> execution_info) \<times> Execution" where
  "record_execution bs execution em =
     (let em' = fold (\<lambda>(metric, mn, mx). append_at metric mn mx) (ex_metrics execution) em
      in case ex_model execution of
           None \<Rightarrow> (Inl (AttributeError ''model''), execution)
         | Some m \<Rightarrow>
             let execution' = execution\<lparr>ex_model := None\<rparr>
             in if clear_gpu_memory bs
                then (Inr (em', make_execution_info execution m), execution')
                else (Inl (AttributeError ''_clear_gpu_memory''), execution'))"

text \<open>Lines 151 to 178: the loop, which stops at the first exception.\<close>

fun record_executions ::
  "Bindings \<Rightarrow> (nat \<times> Execution) list \<Rightarrow> exec_metrics \<Rightarrow> execution_info list
     \<Rightarrow> (error + exec_metrics \<times> execution_info list) \<times> (nat \<times> Execution) list" where
  "record_executions bs [] em eis = (Inr (em, eis), [])"
| "record_executions bs ((k, execution) # rest) em eis =
     (case record_execution bs execution em of
        (Inl e, execution') \<Rightarrow> (Inl e, (k, execution') # rest)
      | (Inr (em', ei), execution') \<Rightarrow>
          (case record_executions bs rest em' (eis @ [ei]) of
             (r, rest') \<Rightarrow> (r, (k, execution') # rest')))"

text \<open>
  Lines 184 to 193: for every name, the statistics of the minima and of the maxima.
  \<open>np\<close> is looked up only when there is something to aggregate.
\<close>

definition stats_of :: "Numpy \<Rightarrow> rat list \<Rightarrow> Stats" where
  "stats_of n data =
     \<lparr>s_min = np_min n data, s_max = np_max n data,
      s_mean = np_mean n data, s_median = np_median n data\<rparr>"

definition aggregate ::
  "Numpy option \<Rightarrow> exec_metrics \<Rightarrow> error + (string \<times> (string \<times> Stats) list) list" where
  "aggregate npo em =
     (if em = [] then Inr []
      else case npo of
             None \<Rightarrow> Inl (NameError ''np'')
           | Some n \<Rightarrow>
               Inr (map (\<lambda>(metric, mins, maxs).
                           (metric, [(''min'', stats_of n mins), (''max'', stats_of n maxs)]))
                        em))"

text \<open>Assignment to a key of a dictionary.\<close>

fun dict_set :: "'k \<Rightarrow> 'v \<Rightarrow> ('k \<times> 'v) list \<Rightarrow> ('k \<times> 'v) list" where
  "dict_set k v [] = [(k, v)]"
| "dict_set k v ((k', v') # rest) =
     (if k' = k then (k, v) # rest else (k', v') # dict_set k v rest)"

text \<open>
  Lines 196 to 198. The right-hand side of line 198 is evaluated first, then
  \<open>results['key_metrics']\<close> is looked up.
\<close>

fun project_key_metrics ::
  "(string \<times> (string \<times> Stats) list) list \<Rightarrow> (string \<times> string) list
     \<Rightarrow> (string \<times> rat) list option \<Rightarrow> error + (string \<times> rat) list option" where
  "project_key_metrics ms [] km = Inr km"
| "project_key_metrics ms (tm # rest) km =
     (case map_of ms (fst tm) of
        None \<Rightarrow> project_key_metrics ms rest km
      | Some dirs \<Rightarrow>
          (case map_of dirs (snd tm) of
             None \<Rightarrow> Inl (KeyError (snd tm))
           | Some st \<Rightarrow>
               (case km of
                  None \<Rightarrow> Inl (KeyError ''key_metrics'')
                | Some d \<Rightarrow> project_key_metrics ms rest (Some (dict_set (fst tm) (s_median st) d)))))"

text \<open>\<open>os.path.join\<close> of two components.\<close>

definition path_join :: "string \<Rightarrow> string \<Rightarrow> string" where
  "path_join a b =
     (if b \<noteq> [] \<and> hd b = CHR ''/'' then b
      else if a = [] \<or> last a = CHR ''/'' then a @ b
      else a @ ''/'' @ b)"

text \<open>Lines 200 to 202: the file name, or the first key that is missing.\<close>

definition results_fname :: "MetaData \<Rightarrow> error + string" where
  "results_fname md =
     (case md_project md of
        None \<Rightarrow> Inl (KeyError ''project'')
      | Some p \<Rightarrow>
          (case md_architecture md of
             None \<Rightarrow> Inl (KeyError ''architecture'')
           | Some a \<Rightarrow>
               (case md_instance md of
                  None \<Rightarrow> Inl (KeyError ''instance'')
                | Some n \<Rightarrow> Inr (p @ ''-'' @ a @ ''-'' @ n @ ''-results.json''))))"

text \<open>
  Lines 180 to 212, after the loop: the aggregation, the key metrics, the write and
  the backend. The result is the record or the exception, with what was written or
  sent up to that point, and the instance.
\<close>

definition finish_results ::
  "Bindings \<Rightarrow> InstanceInfo \<Rightarrow> MetaData \<Rightarrow> string \<Rightarrow> exec_metrics \<Rightarrow> execution_info list
     \<Rightarrow> Instance \<Rightarrow> ((error + Results) \<times> effect list) \<times> Instance" where
  "finish_results bs gi md local_dir em eis i =
     (case aggregate (np bs) em of
        Inl e \<Rightarrow> ((Inl e, []), i)
      | Inr ms \<Rightarrow>
          (case key_metrics bs of
             None \<Rightarrow> ((Inl (AttributeError ''key_metrics''), []), i)
           | Some kms \<Rightarrow>
               (case project_key_metrics ms kms (info_key_metrics gi) of
                  Inl e \<Rightarrow> ((Inl e, []), i)
                | Inr km \<Rightarrow>
                    (case results_fname md of
                       Inl e \<Rightarrow> ((Inl e, []), i)
                     | Inr fname \<Rightarrow>
                         let local_path = path_join local_dir fname;
                             res = \<lparr>res_info = info gi, res_executions = eis,
                                    res_meta_data = md, res_metrics = ms,
                                    res_key_metrics = km\<rparr>
                         in
                           if file_io bs then
                             (case backend bs of
                                None \<Rightarrow>
                                  ((Inl (AttributeError ''backend''), [FileWrite local_path res]), i)
                              | Some b \<Rightarrow>
                                  ((Inr res,
                                    FileWrite local_path res # (if b then [BackendSend res] else [])),
                                   i\<lparr>results := Some res\<rparr>))
                           else ((Inl (NameError ''file_io''), []), i)))))"

text \<open>Lines 145 to 212.\<close>

definition record_results ::
  "Bindings \<Rightarrow> Instance \<Rightarrow> ((error + Results) \<times> effect list) \<times> Instance" where
  "record_results bs i =
     (case get_instance_info bs of
        None \<Rightarrow> ((Inl (AttributeError ''_Instance__get_instance_info''), []), i)
      | Some f \<Rightarrow>
          (case meta_data bs of
             None \<Rightarrow> ((Inl (AttributeError ''meta_data''), []), i)
           | Some md \<Rightarrow>
               (case md_server md of
                  None \<Rightarrow> ((Inl (KeyError ''server''), []), i)
                | Some None \<Rightarrow> ((Inl (KeyError ''local_dir''), []), i)
                | Some (Some local_dir) \<Rightarrow>
                    (case record_executions bs (executions i) [] [] of
                       (Inl e, exs) \<Rightarrow> ((Inl e, []), i\<lparr>executions := exs\<rparr>)
                     | (Inr (em, eis), exs) \<Rightarrow>
                         finish_results bs (f i) md local_dir em eis (i\<lparr>executions := exs\<rparr>)))))"

section \<open>Instances to run the model on\<close>

text \<open>
  \<open>Instance.__init__\<close> (lines 17 to 26) for a model. Modelled from the spec: a new
  \<open>InstanceState\<close> (its class is not among the sources) has no schema and has trained
  no execution.
\<close>

definition InstanceState_init :: InstanceState where
  "InstanceState_init =
     \<lparr>batch_size = 0, training_size = 0, validation_size = 0, agg_metrics = None,
      execution_trained = 0\<rparr>"

definition Instance_init :: "Model \<Rightarrow> Instance" where
  "Instance_init m =
     \<lparr>model = m, state = InstanceState_init, metrics_config = None, executions = [],
      results = None\<rparr>"

text \<open>
  A tuner that starts with the objective \<open>loss\<close> and no schema, and collaborators whose
  training always returns, with one metric.
\<close>

definition example_shared :: Shared where
  "example_shared =
     \<lparr>heap = [],
      tuner_state = \<lparr>objective = ''loss'', tuner_agg_metrics = None, display_model = False\<rparr>\<rparr>"

definition example_collaborators :: Collaborators where
  "example_collaborators =
     \<lparr>dup = Reject,
      Execution_init = (\<lambda>m s t cfg.
        \<lparr>ex_idx = nat (execution_trained s), ex_model = Some m, ex_metrics = [],
         num_epochs = 0, history = [], ex_meta_data = []\<rparr>),
      Execution_fit = (\<lambda>e x kw.
        Inr (e\<lparr>ex_metrics := [(''loss'', 1 / 4, 1 / 2)], num_epochs := 3\<rparr>))\<rparr>"

definition example_model :: Model where
  "example_model = \<lparr>metrics = [Str ''accuracy''], loss = LossStr ''mse'', loss_weights = ''None''\<rparr>"

definition dict_model :: Model where
  "dict_model =
     \<lparr>metrics = [Str ''accuracy''],
      loss = LossDict [(''out_a'', Str ''mse''), (''out_b'', Str ''mae'')],
      loss_weights = ''None''\<rparr>"

definition custom_loss_model :: Model where
  "custom_loss_model =
     \<lparr>metrics = [Str ''accuracy''], loss = LossList [Obj ''my_loss''], loss_weights = ''None''\<rparr>"

text \<open>
  A tuner whose objective is the custom loss. The bindings of a caller who has set the
  attributes \<open>meta_data\<close>, \<open>key_metrics\<close> and \<open>backend\<close> on the instance, while the names
  that the module or the class would have to define stay unbound.
\<close>

definition custom_shared :: Shared where
  "custom_shared =
     \<lparr>heap = [],
      tuner_state = \<lparr>objective = ''my_loss'', tuner_agg_metrics = None, display_model = False\<rparr>\<rparr>"

definition example_meta_data :: MetaData where
  "example_meta_data =
     \<lparr>md_server = Some (Some ''/tmp/results''), md_project = Some ''demo'',
      md_architecture = Some ''mlp'', md_instance = Some ''i0''\<rparr>"

definition caller_bindings :: Bindings where
  "caller_bindings =
     module_bindings
       \<lparr>meta_data := Some example_meta_data,
        key_metrics := Some [(''loss'', ''min''), (''val_acc'', ''max'')],
        backend := Some False\<rparr>"

definition no_kwargs :: kwargs where
  "no_kwargs = \<lparr>kw_batch_size = None, kw_validation_data = None, kw_validation_split = None\<rparr>"

text \<open>Keyword arguments with the splits 0.2, 0.25 and 0.57 as Python reads them.\<close>

definition split_kwargs :: kwargs where
  "split_kwargs =
     \<lparr>kw_batch_size = None, kw_validation_data = None,
      kw_validation_split = Some (round_double (1 / 5))\<rparr>"

definition odd_split_kwargs :: kwargs where
  "odd_split_kwargs =
     \<lparr>kw_batch_size = None, kw_validation_data = None,
      kw_validation_split = Some (round_double (57 / 100))\<rparr>"

definition quarter_kwargs :: kwargs where
  "quarter_kwargs =
     \<lparr>kw_batch_size = None, kw_validation_data = None,
      kw_validation_split = Some (round_double (1 / 4))\<rparr>"

definition data_kwargs :: kwargs where
  "data_kwargs =
     \<lparr>kw_batch_size = Some 64, kw_validation_data = Some (5, 5), kw_validation_split = None\<rparr>"

section \<open>Reference functions for the results\<close>

text \<open>
  What the description of \<open>record_results\<close> speaks of: for a metric name, the minimum
  and the maximum that each execution reports for it, in the order of the executions.
\<close>

definition metric_values :: "string \<Rightarrow> (nat \<times> Execution) list \<Rightarrow> (rat \<times> rat) list" where
  "metric_values n exs = concat (map (\<lambda>e. map snd (filter (\<lambda>t. fst t = n) (ex_metrics (snd e)))) exs)"

text \<open>
  The four statistics in exact arithmetic (on the values of the run below, numpy's
  floating point gives the same), and the bindings of a run in which every name that
  \<open>record_results\<close> uses has been supplied.
\<close>

definition exact_numpy :: Numpy where
  "exact_numpy =
     \<lparr>np_min = (\<lambda>data. fold min data (hd data)),
      np_max = (\<lambda>data. fold max data (hd data)),
      np_mean = (\<lambda>data. sum_list data / of_nat (length data)),
      np_median = (\<lambda>data.
        let s = sort data; n = length data
        in if even n then (s ! (n div 2 - 1) + s ! (n div 2)) / 2 else s ! (n div 2))\<rparr>"

definition patched_bindings :: Bindings where
  "patched_bindings =
     caller_bindings
       \<lparr>get_instance_info := Some (\<lambda>i. \<lparr>info = ''instance'', info_key_metrics = Some []\<rparr>),
        clear_gpu_memory := True,
        np := Some exact_numpy,
        file_io := True\<rparr>"

text \<open>A collection holds a \<open>'min'\<close> metric under a name.\<close>

definition registered_min :: "MetricsCollection \<Rightarrow> string \<Rightarrow> bool" where
  "registered_min c n = list_ex (\<lambda>m. name m = n \<and> direction m = ''min'') c"

section \<open>Properties of the size derivation\<close>

lemma init_schema_sizes:
  assumes "init_schema pol (sh, i) = (r, sh', i')"
  shows "batch_size (state i') = batch_size (state i)
         \<and> training_size (state i') = training_size (state i)
         \<and> validation_size (state i') = validation_size (state i)"
  using assms
  by (auto simp: init_schema_def Let_def
           split: if_splits prod.splits sum.splits option.splits)

text \<open>
  Whether a call of \<open>fit\<close> returns or raises, the sizes in the state are those of lines
  51 to 74.
\<close>

lemma fit_sizes:
  assumes "fit cb x kw (sh, i) = (res, sh', i')"
  shows "batch_size (state i') = get_batch_size kw
         \<and> training_size (state i')
             = fst (validation_sizing kw (derive_training_size x (get_batch_size kw)))
         \<and> validation_size (state i')
             = snd (validation_sizing kw (derive_training_size x (get_batch_size kw)))"
proof -
  obtain r i2 where s: "init_schema (dup cb) (sh, set_sizes x kw i) = (r, sh', i2)"
    and b: "batch_size (state i') = batch_size (state i2)"
    and t: "training_size (state i') = training_size (state i2)"
    and v: "validation_size (state i') = validation_size (state i2)"
    using assms
    by (auto simp: fit_def Let_def split: sum.splits prod.splits option.splits)
  show ?thesis
    using init_schema_sizes [OF s] by (simp add: b t v set_sizes_def Let_def)
qed

lemma fit_training_size:
  "training_size (state (snd (snd (fit cb x kw (sh, i)))))
   = fst (validation_sizing kw (derive_training_size x (get_batch_size kw)))"
  using fit_sizes [of cb x kw sh i "fst (fit cb x kw (sh, i))"
      "fst (snd (fit cb x kw (sh, i)))" "snd (snd (fit cb x kw (sh, i)))"]
  by simp

lemma validation_sizing_no_split:
  "fst (validation_sizing (kw\<lparr>kw_validation_split := None\<rparr>) t0) = t0"
  by (simp add: validation_sizing_def split: option.splits)

text \<open>
  C1. For a batch-generator sequence of length L and batch size B (32 when the caller
  gives none) the derived training size is (L + 2) * B; for any other input of length N
  it is N. It is the training size that a call of \<open>fit\<close> leaves in the state when no
  validation split is taken off it.
\<close>

theorem training_size_derivation:
  "derive_training_size (Sequence l) (get_batch_size kw) = (int l + 2) * get_batch_size kw
   \<and> derive_training_size (Array n) (get_batch_size kw) = int n
   \<and> get_batch_size (kw\<lparr>kw_batch_size := None\<rparr>) = 32
   \<and> get_batch_size (kw\<lparr>kw_batch_size := Some b\<rparr>) = b
   \<and> training_size (state (snd (snd
         (fit cb (Sequence l) (kw\<lparr>kw_validation_split := None\<rparr>) (sh, i)))))
       = (int l + 2) * get_batch_size kw
   \<and> training_size (state (snd (snd
         (fit cb (Array n) (kw\<lparr>kw_validation_split := None\<rparr>) (sh, i)))))
       = int n"
  by (simp add: fit_training_size validation_sizing_no_split derive_training_size_def
        get_batch_size_def)

text \<open>Rounding to the nearest float keeps the order and leaves small integers as they are.\<close>

lemma round_even_of_int: "round_even (of_int k) = k"
  by (simp add: round_even_def)

lemma round_even_bounds: "\<lfloor>r\<rfloor> \<le> round_even r \<and> round_even r \<le> \<lfloor>r\<rfloor> + 1"
  by (simp add: round_even_def Let_def)

lemma round_even_mono:
  assumes "r \<le> r'"
  shows "round_even r \<le> round_even r'"
proof (cases "\<lfloor>r\<rfloor> = \<lfloor>r'\<rfloor>")
  case True
  then have "r - of_int \<lfloor>r\<rfloor> \<le> r' - of_int \<lfloor>r'\<rfloor>"
    using assms by simp
  then show ?thesis
    using True by (auto simp: round_even_def Let_def)
next
  case False
  then have "\<lfloor>r\<rfloor> + 1 \<le> \<lfloor>r'\<rfloor>"
    using floor_mono [OF assms] by simp
  then show ?thesis
    using round_even_bounds [of r] round_even_bounds [of r'] by linarith
qed

lemma pow2_less_exp:
  assumes "(2::rat) powi a < 2 powi b"
  shows "a < b"
proof (rule ccontr)
  assume "\<not> a < b"
  then have "(2::rat) powi b \<le> 2 powi a"
    by (intro power_int_increasing) simp_all
  with assms show False by simp
qed

lemma pow2_of_bitlen:
  assumes "0 < n"
  shows "(2::rat) powi (bitlen n - 1) \<le> of_int n \<and> of_int n < (2::rat) powi bitlen n"
proof -
  have b: "2 ^ nat (bitlen n - 1) \<le> n \<and> n < 2 ^ nat (bitlen n)"
    using bitlen_bounds [OF assms] .
  have pos: "1 \<le> bitlen n"
    using assms bitlen_eq_zero_iff [of n] bitlen_nonneg [of n] by linarith
  have "(of_int (2 ^ nat (bitlen n - 1)) :: rat) \<le> of_int n"
    using b by (simp only: of_int_le_iff)
  moreover have "(of_int n :: rat) < of_int (2 ^ nat (bitlen n))"
    using b by (simp only: of_int_less_iff)
  ultimately show ?thesis
    using pos by (simp add: power_int_def)
qed

lemma bit_exponent_bounds:
  assumes "0 < q"
  shows "2 powi (bit_exponent q - 1) \<le> q \<and> q < 2 powi bit_exponent q"
proof -
  obtain n d where nd: "quotient_of q = (n, d)"
    by (cases "quotient_of q")
  have d: "0 < d"
    using quotient_of_denom_pos [OF nd] .
  have q: "q = of_int n / of_int d"
    using quotient_of_div [OF nd] .
  have n: "0 < n"
    using assms d by (simp add: q zero_less_divide_iff)
  let ?e = "bitlen n - bitlen d"
  have bn: "(2::rat) powi (bitlen n - 1) \<le> of_int n" "of_int n < (2::rat) powi bitlen n"
    using pow2_of_bitlen [OF n] by simp_all
  have bd: "(2::rat) powi (bitlen d - 1) \<le> of_int d" "of_int d < (2::rat) powi bitlen d"
    using pow2_of_bitlen [OF d] by simp_all
  have dpos: "(0::rat) < of_int d"
    using d by simp
  have lo: "2 powi (?e - 1) < q"
  proof -
    have "2 powi (?e - 1) * of_int d < (2::rat) powi (?e - 1) * 2 powi bitlen d"
      using bd(2) by (intro mult_strict_left_mono) simp_all
    also have "\<dots> = 2 powi (bitlen n - 1)"
      by (simp flip: power_int_add)
    also have "\<dots> \<le> of_int n"
      using bn(1) .
    finally show ?thesis
      using dpos by (simp add: q pos_less_divide_eq)
  qed
  have hi: "q < 2 powi (?e + 1)"
  proof -
    have "of_int n < (2::rat) powi bitlen n"
      using bn(2) .
    also have "\<dots> = 2 powi (?e + 1) * 2 powi (bitlen d - 1)"
      by (simp flip: power_int_add)
    also have "\<dots> \<le> 2 powi (?e + 1) * of_int d"
      using bd(1) by (intro mult_left_mono) simp_all
    finally show ?thesis
      using dpos by (simp add: q pos_divide_less_eq)
  qed
  show ?thesis
  proof (cases "q < 2 powi ?e")
    case True
    then have "bit_exponent q = ?e"
      by (simp add: bit_exponent_def nd)
    then show ?thesis
      using True lo by simp
  next
    case False
    then have "bit_exponent q = ?e + 1"
      by (simp add: bit_exponent_def nd)
    then show ?thesis
      using False hi by simp
  qed
qed

lemma bit_exponent_mono:
  assumes "0 < a" and "a \<le> b"
  shows "bit_exponent a \<le> bit_exponent b"
proof -
  have "2 powi (bit_exponent a - 1) \<le> a"
    using bit_exponent_bounds [OF assms(1)] by simp
  also have "\<dots> \<le> b"
    using assms(2) .
  also have "\<dots> < 2 powi bit_exponent b"
    using bit_exponent_bounds [of b] assms by simp
  finally have "bit_exponent a - 1 < bit_exponent b"
    by (rule pow2_less_exp)
  then show ?thesis by simp
qed


lemma round_even_le:
  assumes "r \<le> of_int k"
  shows "round_even r \<le> k"
  using round_even_mono [OF assms] by (simp add: round_even_of_int)

lemma round_even_ge:
  assumes "of_int k \<le> r"
  shows "k \<le> round_even r"
  using round_even_mono [OF assms] by (simp add: round_even_of_int)

lemma round_pos_upper:
  assumes "0 < q"
  shows "round_pos q \<le> 2 powi (max (bit_exponent q - 53) (- 1074) + 53)"
proof -
  let ?j = "max (bit_exponent q - 53) (- 1074)"
  have u: "(0::rat) < 2 powi ?j"
    by simp
  have "q < 2 powi bit_exponent q"
    using bit_exponent_bounds [OF assms] by simp
  also have "\<dots> \<le> 2 powi (?j + 53)"
    by (intro power_int_increasing) simp_all
  also have "\<dots> = 2 powi 53 * 2 powi ?j"
    by (simp add: power_int_add)
  finally have "q / 2 powi ?j \<le> of_int (2 ^ 53)"
    using u by (simp add: pos_divide_le_eq)
  then have "round_even (q / 2 powi ?j) \<le> 2 ^ 53"
    by (rule round_even_le)
  then have "(of_int (round_even (q / 2 powi ?j)) :: rat) \<le> of_int (2 ^ 53)"
    by (simp only: of_int_le_iff)
  then have "(of_int (round_even (q / 2 powi ?j)) :: rat) * 2 powi ?j \<le> of_int (2 ^ 53) * 2 powi ?j"
    using u by (intro mult_right_mono) simp_all
  then show ?thesis
    by (simp add: round_pos_def Let_def power_int_add)
qed

lemma round_pos_lower:
  assumes "0 < q" and "- 1074 \<le> bit_exponent q - 53"
  shows "2 powi (bit_exponent q - 1) \<le> round_pos q"
proof -
  let ?j = "bit_exponent q - 53"
  have j: "max (bit_exponent q - 53) (- 1074) = ?j"
    using assms(2) by simp
  have u: "(0::rat) < 2 powi ?j"
    by simp
  have p: "(2::rat) powi 52 * 2 powi ?j = 2 powi (bit_exponent q - 1)"
    using power_int_add [of "2::rat" 52 ?j] by simp
  then have "(2::rat) powi 52 * 2 powi ?j = 2 powi (bit_exponent q - 1)" .
  also have "\<dots> \<le> q"
    using bit_exponent_bounds [OF assms(1)] by simp
  finally have "of_int (2 ^ 52) \<le> q / 2 powi ?j"
    using u by (simp add: pos_le_divide_eq)
  then have "2 ^ 52 \<le> round_even (q / 2 powi ?j)"
    by (rule round_even_ge)
  then have "(of_int (2 ^ 52) :: rat) \<le> of_int (round_even (q / 2 powi ?j))"
    by (simp only: of_int_le_iff)
  then have m: "(of_int (2 ^ 52) :: rat) * 2 powi ?j \<le> of_int (round_even (q / 2 powi ?j)) * 2 powi ?j"
    using u by (intro mult_right_mono) simp_all
  have "(2::rat) powi (bit_exponent q - 1) = of_int (2 ^ 52) * 2 powi ?j"
    using p by simp
  also have "\<dots> \<le> of_int (round_even (q / 2 powi ?j)) * 2 powi ?j"
    using m .
  also have "\<dots> = round_pos q"
    by (simp add: round_pos_def Let_def j)
  finally show ?thesis .
qed

lemma round_pos_mono:
  assumes "0 < a" and "a \<le> b"
  shows "round_pos a \<le> round_pos b"
proof -
  let ?ja = "max (bit_exponent a - 53) (- 1074)"
  let ?jb = "max (bit_exponent b - 53) (- 1074)"
  have b: "0 < b"
    using assms by simp
  have le: "bit_exponent a \<le> bit_exponent b"
    using bit_exponent_mono [OF assms] .
  show ?thesis
  proof (cases "?ja = ?jb")
    case True
    have "a / 2 powi ?jb \<le> b / 2 powi ?jb"
      using assms(2) by (intro divide_right_mono) simp_all
    then have "round_even (a / 2 powi ?jb) \<le> round_even (b / 2 powi ?jb)"
      by (rule round_even_mono)
    then have "(of_int (round_even (a / 2 powi ?jb)) :: rat) \<le> of_int (round_even (b / 2 powi ?jb))"
      by (simp only: of_int_le_iff)
    then have "(of_int (round_even (a / 2 powi ?jb)) :: rat) * 2 powi ?jb
               \<le> of_int (round_even (b / 2 powi ?jb)) * 2 powi ?jb"
      by (intro mult_right_mono) simp_all
    then show ?thesis
      using True by (simp add: round_pos_def Let_def)
  next
    case False
    then have lt: "?ja < ?jb"
      using le by linarith
    then have big: "- 1074 \<le> bit_exponent b - 53" and jb: "?jb = bit_exponent b - 53"
      by linarith+
    have "round_pos a \<le> 2 powi (?ja + 53)"
      using round_pos_upper [OF assms(1)] .
    also have "\<dots> \<le> 2 powi (bit_exponent b - 1)"
      using lt jb by (intro power_int_increasing) linarith+
    also have "\<dots> \<le> round_pos b"
      using round_pos_lower [OF b big] .
    finally show ?thesis .
  qed
qed

lemma round_pos_nonneg:
  assumes "0 < q"
  shows "0 \<le> round_pos q"
proof -
  have "0 \<le> round_even (q / 2 powi (max (bit_exponent q - 53) (- 1074)))"
    using assms by (intro round_even_ge) simp
  then show ?thesis
    by (simp add: round_pos_def Let_def)
qed

lemma round_pos_of_int:
  assumes "0 < k" and "k < 2 ^ 53"
  shows "round_pos (of_int k) = of_int k"
proof -
  let ?q = "of_int k :: rat"
  let ?j = "max (bit_exponent ?q - 53) (- 1074)"
  have q: "0 < ?q"
    using assms(1) by simp
  have "2 powi (bit_exponent ?q - 1) \<le> ?q"
    using bit_exponent_bounds [OF q] by simp
  also have "?q < of_int (2 ^ 53)"
    using assms(2) by (simp only: of_int_less_iff)
  also have "(of_int (2 ^ 53) :: rat) = 2 powi 53"
    by simp
  finally have "bit_exponent ?q - 1 < 53"
    by (rule pow2_less_exp)
  then have j: "?j \<le> 0" "- 1074 \<le> ?j"
    by simp_all
  then have "(2::rat) powi ?j = 1 / of_int (2 ^ nat (- ?j))"
    by (simp add: power_int_def field_simps)
  then have "?q / 2 powi ?j = of_int (k * 2 ^ nat (- ?j))"
    by simp
  then have "round_even (?q / 2 powi ?j) = k * 2 ^ nat (- ?j)"
    by (simp only: round_even_of_int)
  then have "round_pos ?q = of_int (k * 2 ^ nat (- ?j)) * 2 powi ?j"
    by (simp add: round_pos_def Let_def)
  also have "\<dots> = ?q"
    using j by (simp add: power_int_def field_simps)
  finally show ?thesis .
qed

lemma round_double_of_int:
  assumes "0 \<le> k" and "k < 2 ^ 53"
  shows "round_double (of_int k) = of_int k"
  using assms round_pos_of_int [of k] by (cases "k = 0") (simp_all add: round_double_def)

lemma round_double_mono:
  assumes "0 \<le> a" and "a \<le> b"
  shows "round_double a \<le> round_double b"
proof (cases "a = 0")
  case True
  then show ?thesis
    using assms round_pos_nonneg [of b] by (auto simp: round_double_def)
next
  case False
  then have "0 < a"
    using assms(1) by simp
  then show ?thesis
    using assms round_pos_mono [of a b] by (simp add: round_double_def)
qed

text \<open>
  The sizes for the splits 0.57, 0.58, 0.29, 0.2 and 0.25 of 100 and of 10 samples, as
  Python computes them.
\<close>

lemma validation_sizing_examples:
  "validation_sizing odd_split_kwargs 100 = (43, 56)
   \<and> validation_sizing
         (odd_split_kwargs\<lparr>kw_validation_split := Some (round_double (58 / 100))\<rparr>) 100
       = (42, 57)
   \<and> validation_sizing
         (odd_split_kwargs\<lparr>kw_validation_split := Some (round_double (29 / 100))\<rparr>) 100
       = (71, 28)
   \<and> validation_sizing split_kwargs 100 = (80, 20)
   \<and> validation_sizing quarter_kwargs 10 = (7, 2)"
  by code_simp

lemma validation_sizing_sum:
  assumes "0 \<le> t0" and "t0 < 2 ^ 53" and "0 \<le> s" and "s < 1"
    and "kw_validation_data kw = None" and "kw_validation_split kw = Some s"
  shows "t0 - 1 \<le> fst (validation_sizing kw t0) + snd (validation_sizing kw t0)
         \<and> fst (validation_sizing kw t0) + snd (validation_sizing kw t0) \<le> t0
         \<and> (of_int \<lfloor>round_double (of_int t0 * s)\<rfloor> = round_double (of_int t0 * s)
              \<longrightarrow> fst (validation_sizing kw t0) + snd (validation_sizing kw t0) = t0)"
proof (cases "s = 0")
  case True
  then show ?thesis
    using assms by (simp add: validation_sizing_def)
next
  case False
  define v where "v = round_double (of_int t0 * s)"
  define t where "t = round_double (of_int t0 - v)"
  define k where "k = \<lfloor>v\<rfloor>"
  have t0f: "round_double (of_int t0) = of_int t0"
    using round_double_of_int [OF assms(1,2)] .
  have z: "round_double 0 = 0"
    by (simp add: round_double_def)
  have p0: "(0::rat) \<le> of_int t0 * s"
    using assms(1,3) by simp
  have "of_int t0 * s \<le> of_int t0 * 1"
    using assms(1,4) by (intro mult_left_mono) simp_all
  then have p1: "of_int t0 * s \<le> of_int t0"
    by simp
  have v0: "0 \<le> v"
    using round_double_mono [OF order_refl p0] by (simp add: v_def z)
  have v1: "v \<le> of_int t0"
    using round_double_mono [OF p0 p1] by (simp add: v_def t0f)
  have k0: "0 \<le> k"
    using v0 by (simp add: k_def)
  have k1: "k \<le> t0"
    using floor_mono [OF v1] by (simp only: floor_of_int k_def)
  have kv: "of_int k \<le> v" "v < of_int k + 1"
    using floor_correct [of v] by (simp_all add: k_def)
  have d0: "0 \<le> of_int t0 - v"
    using v1 by simp
  have t_nonneg: "0 \<le> t"
    using round_double_mono [OF order_refl d0] by (simp add: t_def z)
  have "of_int t0 - v \<le> of_int (t0 - k)"
    using kv(1) by simp
  then have "t \<le> round_double (of_int (t0 - k))"
    unfolding t_def by (rule round_double_mono [OF d0])
  also have "\<dots> = of_int (t0 - k)"
    using k0 k1 assms(2) by (intro round_double_of_int) simp_all
  finally have t_le: "t \<le> of_int (t0 - k)" .
  have up: "\<lfloor>t\<rfloor> \<le> t0 - k"
    using floor_mono [OF t_le] by (simp only: floor_of_int)
  have lo: "t0 - k - 1 \<le> \<lfloor>t\<rfloor>"
  proof (cases "0 \<le> t0 - k - 1")
    case True
    have "(0::rat) \<le> of_int (t0 - k - 1)"
      using True by (simp only: of_int_0_le_iff)
    moreover have "of_int (t0 - k - 1) \<le> of_int t0 - v"
      using kv(2) by simp
    ultimately have "round_double (of_int (t0 - k - 1)) \<le> t"
      unfolding t_def by (rule round_double_mono)
    moreover have "round_double (of_int (t0 - k - 1)) = of_int (t0 - k - 1)"
      using True k0 assms(2) by (intro round_double_of_int) simp_all
    ultimately have "of_int (t0 - k - 1) \<le> t"
      by simp
    then show ?thesis
      by (simp only: le_floor_iff)
  next
    case neg: False
    have "0 \<le> \<lfloor>t\<rfloor>"
      using t_nonneg by simp
    then show ?thesis
      using neg by linarith
  qed
  have e: "validation_sizing kw t0 = (\<lfloor>t\<rfloor>, k)"
    using assms(5,6) False v0 t_nonneg
    by (simp add: validation_sizing_def py_int_def Let_def t0f v_def [symmetric]
          t_def [symmetric] k_def)
  have whole: "\<lfloor>t\<rfloor> + k = t0" if w: "of_int k = v"
  proof -
    have "of_int t0 - v = of_int (t0 - k)"
      using w by simp
    then have "t = round_double (of_int (t0 - k))"
      by (simp only: t_def)
    also have "\<dots> = of_int (t0 - k)"
      using k0 k1 assms(2) by (intro round_double_of_int) simp_all
    finally have "\<lfloor>t\<rfloor> = t0 - k"
      by (simp only: floor_of_int)
    then show ?thesis by simp
  qed
  show ?thesis
    using e up lo whole by (simp add: v_def [symmetric] k_def [symmetric])
qed

text \<open>
  C2, as stated: after a call of \<open>fit\<close> with a validation split s in [0,1) and no
  validation data, the truncated training size plus the truncated validation size
  equals the training size T0 derived before the split. It fails for an array of 10
  samples and a split of 0.25: 10 * 0.25 = 2.5 and 10 - 2.5 = 7.5 truncate to 2 and 7,
  which add up to 9.
\<close>

theorem validation_split_sum_counterexample:
  "training_size (state (snd (snd (fit example_collaborators (Array 10) quarter_kwargs
      (example_shared, Instance_init example_model)))))
   + validation_size (state (snd (snd (fit example_collaborators (Array 10) quarter_kwargs
      (example_shared, Instance_init example_model)))))
   \<noteq> derive_training_size (Array 10) (get_batch_size quarter_kwargs)"
  by code_simp

text \<open>
  C2, amended: after a call of \<open>fit\<close> with a split s in [0,1), no validation data and
  a derived training size T0 with 0 \<le> T0 < 2 ^ 53, the two truncated sizes in the
  state add up to T0 or to T0 - 1; they add up to T0 whenever the float product T0 * s
  of line 68 is a whole number.
\<close>

theorem validation_split_sum:
  assumes "fit cb x kw (sh, i) = (res, sh', i')"
    and "t0 = derive_training_size x (get_batch_size kw)"
    and "0 \<le> t0" and "t0 < 2 ^ 53" and "0 \<le> s" and "s < 1"
    and "kw_validation_data kw = None" and "kw_validation_split kw = Some s"
  shows "t0 - 1 \<le> training_size (state i') + validation_size (state i')
         \<and> training_size (state i') + validation_size (state i') \<le> t0
         \<and> (of_int \<lfloor>round_double (of_int t0 * s)\<rfloor> = round_double (of_int t0 * s)
              \<longrightarrow> training_size (state i') + validation_size (state i') = t0)"
  using fit_sizes [OF assms(1)] validation_sizing_sum [OF assms(3-8)]
  by (simp add: assms(2))

theorem validation_split_sum_witness:
  "training_size (state (snd (snd (fit example_collaborators (Array 100) split_kwargs
      (example_shared, Instance_init example_model)))))
   + validation_size (state (snd (snd (fit example_collaborators (Array 100) split_kwargs
      (example_shared, Instance_init example_model)))))
   = 100
   \<and> 99 \<le> training_size (state (snd (snd (fit example_collaborators (Array 100)
        odd_split_kwargs (example_shared, Instance_init example_model)))))
   + validation_size (state (snd (snd (fit example_collaborators (Array 100)
        odd_split_kwargs (example_shared, Instance_init example_model)))))
   \<and> training_size (state (snd (snd (fit example_collaborators (Array 100)
        odd_split_kwargs (example_shared, Instance_init example_model)))))
   + validation_size (state (snd (snd (fit example_collaborators (Array 100)
        odd_split_kwargs (example_shared, Instance_init example_model)))))
   \<le> 100"
proof -
  let ?f = "fit example_collaborators (Array 100) split_kwargs
              (example_shared, Instance_init example_model)"
  let ?g = "fit example_collaborators (Array 100) odd_split_kwargs
              (example_shared, Instance_init example_model)"
  have f: "?f = (fst ?f, fst (snd ?f), snd (snd ?f))"
    by simp
  have g: "?g = (fst ?g, fst (snd ?g), snd (snd ?g))"
    by simp
  have tf: "(100 :: int) = derive_training_size (Array 100) (get_batch_size split_kwargs)"
    by code_simp
  have tg: "(100 :: int) = derive_training_size (Array 100) (get_batch_size odd_split_kwargs)"
    by code_simp
  have kf: "kw_validation_data split_kwargs = None"
    "kw_validation_split split_kwargs = Some (round_double (1 / 5))"
    by (simp_all add: split_kwargs_def)
  have kg: "kw_validation_data odd_split_kwargs = None"
    "kw_validation_split odd_split_kwargs = Some (round_double (57 / 100))"
    by (simp_all add: odd_split_kwargs_def)
  have sf: "0 \<le> round_double (1 / 5) \<and> round_double (1 / 5) < 1"
    by code_simp
  have sg: "0 \<le> round_double (57 / 100) \<and> round_double (57 / 100) < 1"
    by code_simp
  have whole: "of_int \<lfloor>round_double (of_int 100 * round_double (1 / 5))\<rfloor>
               = round_double (of_int 100 * round_double (1 / 5))"
    by code_simp
  have a: "training_size (state (snd (snd ?f))) + validation_size (state (snd (snd ?f))) = 100"
    using validation_split_sum [OF f tf _ _ conjunct1 [OF sf] conjunct2 [OF sf] kf] whole by simp
  have b: "99 \<le> training_size (state (snd (snd ?g))) + validation_size (state (snd (snd ?g)))
           \<and> training_size (state (snd (snd ?g))) + validation_size (state (snd (snd ?g))) \<le> 100"
    using validation_split_sum [OF g tg _ _ conjunct1 [OF sg] conjunct2 [OF sg] kg] by simp
  show ?thesis
    using a b by blast
qed

section \<open>Properties of the schema initialisation\<close>



lemma init_schema_heap:
  assumes "init_schema pol (sh, i) = (r, sh', i')"
  shows "length (heap sh) \<le> length (heap sh')
         \<and> (\<forall>k < length (heap sh). heap sh' ! k = heap sh ! k)"
  using assms
  by (auto simp: init_schema_def Let_def nth_append
           split: if_splits prod.splits sum.splits option.splits)

lemma init_schema_tuner_kept:
  assumes "init_schema pol (sh, i) = (r, sh', i')"
    and "tuner_agg_metrics (tuner_state sh) = Some tr" and "tr < length (heap sh)"
    and "heap sh ! tr \<noteq> []"
  shows "tuner_state sh' = tuner_state sh"
  using assms
  by (auto simp: init_schema_def Let_def truthy_def nth_append
           split: if_splits prod.splits sum.splits option.splits)


lemma init_schema_adopts:
  assumes "init_schema pol (sh, i) = (r, sh', i')"
    and "tuner_agg_metrics (tuner_state sh') \<noteq> tuner_agg_metrics (tuner_state sh)"
  shows "\<exists>tr cfg. tuner_agg_metrics (tuner_state sh') = Some tr
           \<and> metrics_config i' = Some cfg
           \<and> heap sh' ! tr = from_config cfg
           \<and> agg_metrics (state i') = Some (length (heap sh))
           \<and> tr = Suc (length (heap sh))"
  using assms
  by (auto simp: init_schema_def Let_def nth_append
           split: if_splits prod.splits sum.splits option.splits)


lemma fit_shared:
  assumes "fit cb x kw (sh, i) = (res, sh', i')"
  shows "\<exists>r i2. init_schema (dup cb) (sh, set_sizes x kw i) = (r, sh', i2)
           \<and> agg_metrics (state i') = agg_metrics (state i2)
           \<and> metrics_config i' = metrics_config i2
           \<and> (r = None \<or> (\<exists>e. res = Inl e))"
  using assms
  by (auto simp: fit_def Let_def split: sum.splits prod.splits option.splits)




lemma add_members:
  assumes "add pol m c = Inr c'" and "x \<in> set c"
  shows "(if name x = name m then m else x) \<in> set c'"
proof (cases "name m \<in> set (map name c)")
  case True
  then have "c' = map (\<lambda>m'. if name m' = name m then m else m') c"
    using assms(1) by (auto simp: add_def split: dup_policy.splits)
  then show ?thesis
    using assms(2) by (simp add: image_iff) blast
next
  case False
  then have "c' = c @ [m]"
    using assms(1) by (simp add: add_def)
  moreover have "name x \<noteq> name m"
    using False assms(2) by (metis image_eqI set_map)
  ultimately show ?thesis
    using assms(2) by simp
qed

lemma add_new_member:
  assumes "add pol m c = Inr c'"
  shows "m \<in> set c'"
proof (cases "name m \<in> set (map name c)")
  case True
  then obtain x where "x \<in> set c" "name x = name m"
    by auto
  with add_members [OF assms, of x] show ?thesis
    by simp
next
  case False
  then show ?thesis
    using assms by (auto simp: add_def)
qed

lemma add_min_registered:
  assumes "add pol (Metric_init n ''min'') c = Inr c'"
  shows "registered_min c' n"
proof -
  have "Metric_init n ''min'' \<in> set c'"
    using add_new_member [OF assms] .
  moreover have "name (Metric_init n ''min'') = n \<and> direction (Metric_init n ''min'') = ''min''"
    by (simp add: Metric_init_def)
  ultimately show ?thesis
    unfolding registered_min_def list_ex_iff by blast
qed

lemma add_min_kept:
  assumes "add pol (Metric_init n' ''min'') c = Inr c'" and "registered_min c n"
  shows "registered_min c' n"
proof -
  obtain x where x: "x \<in> set c" "name x = n" "direction x = ''min''"
    using assms(2) by (auto simp: registered_min_def list_ex_iff)
  let ?y = "if name x = name (Metric_init n' ''min'') then Metric_init n' ''min'' else x"
  have "?y \<in> set c'"
    using add_members [OF assms(1) x(1)] .
  moreover have "name ?y = n \<and> direction ?y = ''min''"
    using x by (simp add: Metric_init_def)
  ultimately show ?thesis
    unfolding registered_min_def list_ex_iff by blast
qed

lemma add_losses_registered:
  assumes "add_losses pol v ls c = (None, c')"
  shows "(\<forall>n. registered_min c n \<longrightarrow> registered_min c' n)
         \<and> (\<forall>l \<in> set ls. registered_min c' (ident_name l)
               \<and> (v \<longrightarrow> registered_min c' (''val_'' @ ident_name l)))"
  using assms
proof (induction ls arbitrary: c)
  case Nil
  then show ?case by simp
next
  case (Cons l ls)
  obtain c1 where c1: "add pol (Metric_init (ident_name l) ''min'') c = Inr c1"
    using Cons.prems by (auto split: sum.splits)
  show ?case
  proof (cases v)
    case True
    obtain c2 where c2: "add pol (Metric_init (''val_'' @ ident_name l) ''min'') c1 = Inr c2"
      and r: "add_losses pol v ls c2 = (None, c')"
      using Cons.prems c1 True by (auto split: sum.splits)
    have "registered_min c2 (ident_name l)" "registered_min c2 (''val_'' @ ident_name l)"
      using add_min_registered [OF c1] add_min_kept [OF c2] add_min_registered [OF c2] by auto
    moreover have "\<forall>n. registered_min c n \<longrightarrow> registered_min c2 n"
      using add_min_kept [OF c1] add_min_kept [OF c2] by blast
    ultimately show ?thesis
      using Cons.IH [OF r] by auto
  next
    case False
    have r: "add_losses pol v ls c1 = (None, c')"
      using Cons.prems c1 False by simp
    have "registered_min c1 (ident_name l)"
      using add_min_registered [OF c1] .
    moreover have "\<forall>n. registered_min c n \<longrightarrow> registered_min c1 n"
      using add_min_kept [OF c1] by blast
    ultimately show ?thesis
      using Cons.IH [OF r] False by auto
  qed
qed

lemma set_objective_registered:
  assumes "set_objective ob c = Inr c'" and "registered_min c n"
  shows "registered_min c' n"
  using assms
  by (auto simp: set_objective_def registered_min_def list_ex_iff split: if_splits)

text \<open>
  A schema initialisation that goes through has registered every loss of the list that
  lines 93 to 98 give (\<open>loss\<close> for a single name, the list itself for a list) as a
  \<open>'min'\<close> metric, with its \<open>val_\<close> twin when the validation size is not zero.
\<close>

lemma init_schema_losses:
  assumes "init_schema pol (sh, i) = (None, sh', i')"
    and "\<not> truthy (heap sh) (agg_metrics (state i))"
  shows "\<exists>ls. resolve_losses (loss (model i)) = Inr ls
           \<and> (\<forall>l \<in> set ls. registered_min (heap sh' ! length (heap sh)) (ident_name l)
                 \<and> (validation_size (state i) \<noteq> 0
                      \<longrightarrow> registered_min (heap sh' ! length (heap sh)) (''val_'' @ ident_name l)))"
proof -
  let ?v = "validation_size (state i) \<noteq> 0"
  obtain c1 ls c2 c3 where ls: "resolve_losses (loss (model i)) = Inr ls"
    and a: "add_losses pol ?v ls c1 = (None, c2)"
    and o: "set_objective (objective (tuner_state sh)) c2 = Inr c3"
    and h: "heap sh' ! length (heap sh) = c3"
    using assms
    by (auto simp: init_schema_def Let_def nth_append
             split: if_splits prod.splits sum.splits option.splits)
  show ?thesis
    using add_losses_registered [OF a] set_objective_registered [OF o] ls h by auto
qed

lemma resolve_losses_forms:
  "resolve_losses (LossStr s) = Inr [Str ''loss'']"
  "resolve_losses (LossList ls) = Inr ls"
  "resolve_losses (LossDict kvs) = Inl (UnboundLocalError ''losses'')"
  by (simp_all add: resolve_losses_def)

text \<open>For a mapping of named losses, whatever it holds, the initialisation raises.\<close>

lemma init_schema_dict_raises:
  assumes "loss (model i) = LossDict kvs"
    and "\<not> truthy (heap sh) (agg_metrics (state i))"
  shows "fst (init_schema pol (sh, i)) \<noteq> None"
  using assms
  by (auto simp: init_schema_def Let_def resolve_losses_def
           split: if_splits prod.splits sum.splits option.splits)

text \<open>
  C3, at a model whose loss is a mapping of named losses: the first call of \<open>fit\<close>
  raises \<open>UnboundLocalError\<close> at line 94, after the metrics of the model have been
  added; no loss is registered in the collection, and the instance is left with a
  collection but without \<open>metrics_config\<close>.
\<close>

theorem dict_loss_raises:
  "fst (fit example_collaborators (Array 100) split_kwargs
          (example_shared, Instance_init dict_model))
   = Inl (UnboundLocalError ''losses'')
   \<and> heap (fst (snd (fit example_collaborators (Array 100) split_kwargs
          (example_shared, Instance_init dict_model))))
     = [[\<lparr>name = ''accuracy'', direction = ''max'', is_objective = False\<rparr>,
         \<lparr>name = ''val_accuracy'', direction = ''max'', is_objective = False\<rparr>]]
   \<and> metrics_config (snd (snd (fit example_collaborators (Array 100) split_kwargs
          (example_shared, Instance_init dict_model)))) = None"
  by code_simp



text \<open>
  C5. A call of \<open>fit\<close>, of whatever instance, that finds the schema of the tuner set
  leaves the tuner state and the collection it refers to as they are. A call that does
  change \<open>tuner_state.agg_metrics\<close> makes it refer to a collection that did not exist
  before the call, that is not the collection of the instance, and that is what
  \<open>from_config\<close> builds from the \<open>metrics_config\<close> of the instance.
\<close>

theorem tuner_schema_adoption:
  assumes "fit cb x kw (sh, i) = (res, sh', i')"
  shows "(\<forall>tr. tuner_agg_metrics (tuner_state sh) = Some tr \<longrightarrow> tr < length (heap sh)
              \<longrightarrow> heap sh ! tr \<noteq> []
              \<longrightarrow> tuner_state sh' = tuner_state sh \<and> heap sh' ! tr = heap sh ! tr)
       \<and> (tuner_agg_metrics (tuner_state sh') \<noteq> tuner_agg_metrics (tuner_state sh)
            \<longrightarrow> (\<exists>tr cfg. tuner_agg_metrics (tuner_state sh') = Some tr
                   \<and> metrics_config i' = Some cfg
                   \<and> heap sh' ! tr = from_config cfg
                   \<and> length (heap sh) \<le> tr
                   \<and> agg_metrics (state i') \<noteq> Some tr))"
proof -
  obtain r i2 where s: "init_schema (dup cb) (sh, set_sizes x kw i) = (r, sh', i2)"
    and ag: "agg_metrics (state i') = agg_metrics (state i2)"
    and mc: "metrics_config i' = metrics_config i2"
    using fit_shared [OF assms] by blast
  have one: "tuner_state sh' = tuner_state sh \<and> heap sh' ! tr = heap sh ! tr"
    if "tuner_agg_metrics (tuner_state sh) = Some tr" "tr < length (heap sh)" "heap sh ! tr \<noteq> []" for tr
    using init_schema_tuner_kept [OF s that] init_schema_heap [OF s] that(2) by simp
  have two: "\<exists>tr cfg. tuner_agg_metrics (tuner_state sh') = Some tr
                   \<and> metrics_config i' = Some cfg
                   \<and> heap sh' ! tr = from_config cfg
                   \<and> length (heap sh) \<le> tr
                   \<and> agg_metrics (state i') \<noteq> Some tr"
    if "tuner_agg_metrics (tuner_state sh') \<noteq> tuner_agg_metrics (tuner_state sh)"
    using init_schema_adopts [OF s that] by (auto simp: ag mc)
  show ?thesis using one two by blast
qed

theorem tuner_schema_adoption_witness:
  "heap (fst (snd (fit example_collaborators (Array 100) split_kwargs
                     (example_shared, Instance_init example_model)))) ! 1
   = from_config [(''accuracy'', ''max'', False), (''val_accuracy'', ''max'', False),
                  (''loss'', ''min'', True), (''val_loss'', ''min'', False)]
   \<and> agg_metrics (state (snd (snd (fit example_collaborators (Array 100) split_kwargs
                     (example_shared, Instance_init example_model))))) \<noteq> Some 1
   \<and> tuner_state (fst (snd (fit example_collaborators (Sequence 10) data_kwargs
        (fst (snd (fit example_collaborators (Array 100) split_kwargs
                     (example_shared, Instance_init example_model))),
         Instance_init custom_loss_model))))
     = tuner_state (fst (snd (fit example_collaborators (Array 100) split_kwargs
                     (example_shared, Instance_init example_model))))"
proof -
  let ?f = "fit example_collaborators (Array 100) split_kwargs
              (example_shared, Instance_init example_model)"
  let ?g = "fit example_collaborators (Sequence 10) data_kwargs
              (fst (snd ?f), Instance_init custom_loss_model)"
  have f: "?f = (fst ?f, fst (snd ?f), snd (snd ?f))"
    by simp
  have g: "?g = (fst ?g, fst (snd ?g), snd (snd ?g))"
    by simp
  have t0: "tuner_agg_metrics (tuner_state example_shared) = None"
    by code_simp
  have t1: "tuner_agg_metrics (tuner_state (fst (snd ?f))) = Some 1"
    by code_simp
  have m1: "metrics_config (snd (snd ?f))
            = Some [(''accuracy'', ''max'', False), (''val_accuracy'', ''max'', False),
                    (''loss'', ''min'', True), (''val_loss'', ''min'', False)]"
    by code_simp
  have v: "1 < length (heap (fst (snd ?f)))" "heap (fst (snd ?f)) ! 1 \<noteq> []"
    by code_simp+
  have a: "heap (fst (snd ?f)) ! 1
           = from_config [(''accuracy'', ''max'', False), (''val_accuracy'', ''max'', False),
                          (''loss'', ''min'', True), (''val_loss'', ''min'', False)]
           \<and> agg_metrics (state (snd (snd ?f))) \<noteq> Some 1"
    using tuner_schema_adoption [OF f] t0 t1 m1 by auto
  have b: "tuner_state (fst (snd ?g)) = tuner_state (fst (snd ?f))"
    using tuner_schema_adoption [OF g] t1 v by blast
  show ?thesis
    using a b by blast
qed

section \<open>Properties of record\_results\<close>

lemma reported_loss_cases:
  "reported_loss l = (if json_serializable l then l else LossStr ''CUSTOM'')"
  by (simp add: reported_loss_def)

lemma record_executions_infos:
  assumes "record_executions bs exs em eis = (Inr (em', eis'), exs')"
  shows "eis' = eis @ map (\<lambda>e. make_execution_info (snd e) (the (ex_model (snd e)))) exs
         \<and> em' = fold (\<lambda>e. fold (\<lambda>(metric, mn, mx). append_at metric mn mx) (ex_metrics (snd e))) exs em"
  using assms
proof (induction exs arbitrary: em eis exs')
  case Nil
  then show ?case by simp
next
  case (Cons a rest)
  obtain k execution where a: "a = (k, execution)"
    by (cases a)
  obtain m where m: "ex_model execution = Some m" and c: "clear_gpu_memory bs"
    using Cons.prems
    by (auto simp: a record_execution_def Let_def split: option.splits if_splits)
  let ?em = "fold (\<lambda>(metric, mn, mx). append_at metric mn mx) (ex_metrics execution) em"
  obtain rest' where r: "record_executions bs rest ?em (eis @ [make_execution_info execution m])
                         = (Inr (em', eis'), rest')"
    using Cons.prems
    by (auto simp: a m c record_execution_def Let_def split: prod.splits)
  show ?case
    using Cons.IH [OF r] by (simp add: a m)
qed

lemma record_results_returns:
  assumes "record_results bs i = ((Inr res, eff), i')"
  shows "\<exists>em ms. record_executions bs (executions i) [] []
            = (Inr (em, res_executions res), executions i')
          \<and> aggregate (np bs) em = Inr ms \<and> res_metrics res = ms
          \<and> (\<exists>kms gi. key_metrics bs = Some kms
                \<and> project_key_metrics ms kms gi = Inr (res_key_metrics res))"
  using assms
  by (auto simp: record_results_def finish_results_def Let_def
           split: option.splits sum.splits prod.splits if_splits)

text \<open>
  Once every name is bound and the call returns, the record has one entry for each
  execution, in order, with the epoch count, the history, the loss descriptor or the
  marker, the loss weights and the metadata of that execution.
\<close>

lemma returned_record_executions:
  assumes "record_results bs i = ((Inr res, eff), i')"
  shows "res_executions res
           = map (\<lambda>e. make_execution_info (snd e) (the (ex_model (snd e)))) (executions i)
         \<and> length (res_executions res) = length (executions i)"
proof -
  obtain em where "record_executions bs (executions i) [] []
                     = (Inr (em, res_executions res), executions i')"
    using record_results_returns [OF assms] by blast
  from record_executions_infos [OF this] show ?thesis
    by simp
qed

lemma append_at_map_of:
  "map_of (append_at m mn mx em) n
   = (if n = m
      then Some (case map_of em m of None \<Rightarrow> ([mn], [mx]) | Some p \<Rightarrow> (fst p @ [mn], snd p @ [mx]))
      else map_of em n)"
  by (induction em) (auto split: option.splits)

lemma fold_append_at_map_of:
  "map_of (fold (\<lambda>(metric, mn, mx). append_at metric mn mx) items em) n
   = (let vs = map snd (filter (\<lambda>t. fst t = n) items)
      in if vs = [] then map_of em n
         else Some (case map_of em n of
                      None \<Rightarrow> (map fst vs, map snd vs)
                    | Some p \<Rightarrow> (fst p @ map fst vs, snd p @ map snd vs)))"
proof (induction items arbitrary: em)
  case Nil
  then show ?case by simp
next
  case (Cons t items)
  obtain m mn mx where t: "t = (m, mn, mx)"
    by (cases t)
  show ?case
    by (simp add: t Cons.IH append_at_map_of Let_def split: option.splits)
qed

lemma collect_map_of:
  "map_of (fold (\<lambda>e. fold (\<lambda>(metric, mn, mx). append_at metric mn mx) (ex_metrics (snd e))) exs em) n
   = (let vs = metric_values n exs
      in if vs = [] then map_of em n
         else Some (case map_of em n of
                      None \<Rightarrow> (map fst vs, map snd vs)
                    | Some p \<Rightarrow> (fst p @ map fst vs, snd p @ map snd vs)))"
proof (induction exs arbitrary: em)
  case Nil
  then show ?case by (simp add: metric_values_def)
next
  case (Cons e exs)
  have mv: "metric_values n (e # exs)
            = map snd (filter (\<lambda>t. fst t = n) (ex_metrics (snd e))) @ metric_values n exs"
    by (simp add: metric_values_def)
  show ?case
    by (simp add: Cons.IH fold_append_at_map_of mv Let_def split: option.splits)
qed

lemma aggregate_map_of:
  assumes "aggregate npo em = Inr ms" and "map_of em n = Some (mins, maxs)" and "npo = Some npf"
  shows "map_of ms n = Some [(''min'', stats_of npf mins), (''max'', stats_of npf maxs)]"
proof -
  have "em \<noteq> []"
    using assms(2) by auto
  then have ms: "ms = map (\<lambda>(metric, mins, maxs).
                    (metric, [(''min'', stats_of npf mins), (''max'', stats_of npf maxs)])) em"
    using assms(1,3) by (simp add: aggregate_def)
  have "map_of (map (\<lambda>(metric, mins, maxs).
                    (metric, [(''min'', stats_of npf mins), (''max'', stats_of npf maxs)])) em) n
        = map_option (\<lambda>(mins, maxs). [(''min'', stats_of npf mins), (''max'', stats_of npf maxs)])
            (map_of em n)"
    by (induction em) auto
  then show ?thesis
    by (simp add: ms assms(2))
qed

text \<open>
  Once every name is bound and the call returns, the statistics recorded for a metric
  are those that \<open>np\<close> gives for the list of the minima of the executions that report
  it and, separately, for the list of their maxima.
\<close>

lemma returned_record_statistics:
  assumes "record_results bs i = ((Inr res, eff), i')"
    and "np bs = Some npf" and "metric_values n (executions i) \<noteq> []"
  shows "map_of (res_metrics res) n
         = Some [(''min'', stats_of npf (map fst (metric_values n (executions i)))),
                 (''max'', stats_of npf (map snd (metric_values n (executions i))))]"
proof -
  obtain em ms where r: "record_executions bs (executions i) [] []
                           = (Inr (em, res_executions res), executions i')"
    and a: "aggregate (np bs) em = Inr ms" and ms: "res_metrics res = ms"
    using record_results_returns [OF assms(1)] by blast
  have em: "em = fold (\<lambda>e. fold (\<lambda>(metric, mn, mx). append_at metric mn mx) (ex_metrics (snd e)))
                   (executions i) []"
    using record_executions_infos [OF r] by simp
  have "map_of em n = Some (map fst (metric_values n (executions i)),
                            map snd (metric_values n (executions i)))"
    using assms(3) by (simp add: em collect_map_of Let_def)
  from aggregate_map_of [OF a this assms(2)] show ?thesis
    by (simp add: ms)
qed

lemma dict_set_map_of:
  "map_of (dict_set k v al) k' = (if k' = k then Some v else map_of al k')"
  by (induction al) auto

lemma project_key_metrics_absent:
  assumes "\<forall>tm \<in> set kms. map_of ms (fst tm) = None"
  shows "project_key_metrics ms kms km = Inr km"
  using assms by (induction kms arbitrary: km) auto

lemma project_key_metrics_skips:
  "project_key_metrics ms (filter (\<lambda>tm. map_of ms (fst tm) \<noteq> None) kms) km
   = project_key_metrics ms kms km"
  by (induction kms arbitrary: km) (auto split: option.splits)

lemma project_key_metrics_other:
  assumes "project_key_metrics ms kms (Some d0) = Inr km'" and "n \<notin> fst ` set kms"
  shows "\<exists>d'. km' = Some d' \<and> map_of d' n = map_of d0 n"
  using assms
proof (induction kms arbitrary: d0)
  case Nil
  then show ?case by auto
next
  case (Cons tm kms)
  show ?case
  proof (cases "map_of ms (fst tm)")
    case None
    then show ?thesis using Cons by simp
  next
    case (Some dirs)
    then obtain st where st: "map_of dirs (snd tm) = Some st"
      and r: "project_key_metrics ms kms (Some (dict_set (fst tm) (s_median st) d0)) = Inr km'"
      using Cons.prems(1) by (auto split: option.splits)
    have "n \<notin> fst ` set kms" "n \<noteq> fst tm"
      using Cons.prems(2) by auto
    with Cons.IH [OF r] show ?thesis
      by (simp add: dict_set_map_of)
  qed
qed

text \<open>
  Once the loop over the key metrics goes through, a configured pair whose name is
  among the aggregated metrics has the median of that name and direction in
  \<open>key_metrics\<close> (for names that are configured once).
\<close>

lemma project_key_metrics_copied:
  assumes "project_key_metrics ms kms km = Inr km'" and "(n, d) \<in> set kms"
    and "map_of ms n = Some dirs" and "distinct (map fst kms)"
  shows "\<exists>d' st. km' = Some d' \<and> map_of dirs d = Some st \<and> map_of d' n = Some (s_median st)"
  using assms
proof (induction kms arbitrary: km)
  case Nil
  then show ?case by simp
next
  case (Cons tm kms)
  show ?case
  proof (cases "tm = (n, d)")
    case True
    then obtain st d0 where st: "map_of dirs d = Some st" and km: "km = Some d0"
      and r: "project_key_metrics ms kms (Some (dict_set n (s_median st) d0)) = Inr km'"
      using Cons.prems(1,3) by (auto split: option.splits)
    have "n \<notin> fst ` set kms"
      using Cons.prems(4) True by auto
    from project_key_metrics_other [OF r this] show ?thesis
      by (simp add: st dict_set_map_of)
  next
    case False
    then have in_rest: "(n, d) \<in> set kms"
      using Cons.prems(2) by auto
    have dist: "distinct (map fst kms)"
      using Cons.prems(4) by simp
    show ?thesis
    proof (cases "map_of ms (fst tm)")
      case None
      then have "project_key_metrics ms kms km = Inr km'"
        using Cons.prems(1) by simp
      from Cons.IH [OF this in_rest Cons.prems(3) dist] show ?thesis .
    next
      case (Some dirs')
      then obtain km1 where "project_key_metrics ms kms km1 = Inr km'"
        using Cons.prems(1) by (auto split: option.splits)
      from Cons.IH [OF this in_rest Cons.prems(3) dist] show ?thesis .
    qed
  qed
qed

text \<open>
  A run in which every name has been supplied: the call returns the record, with the
  statistics over the three executions, the median of \<open>loss\<close> among the key metrics,
  the absent \<open>val_acc\<close> skipped, and one write.
\<close>

lemma record_results_patched:
  "fst (record_results patched_bindings
     (snd (fit_calls example_collaborators
        [(Array 100, split_kwargs), (Array 100, split_kwargs), (Array 100, split_kwargs)]
        (example_shared, Instance_init example_model))))
   = (Inr \<lparr>res_info = ''instance'',
           res_executions = replicate 3
             \<lparr>ei_num_epochs = 3, ei_history = [], ei_loss_fn = LossStr ''mse'',
              ei_loss_weights = ''None'', ei_meta_data = []\<rparr>,
           res_meta_data = example_meta_data,
           res_metrics =
             [(''loss'',
               [(''min'', \<lparr>s_min = 1 / 4, s_max = 1 / 4, s_mean = 1 / 4, s_median = 1 / 4\<rparr>),
                (''max'', \<lparr>s_min = 1 / 2, s_max = 1 / 2, s_mean = 1 / 2, s_median = 1 / 2\<rparr>)])],
           res_key_metrics = Some [(''loss'', 1 / 4)]\<rparr>,
      [FileWrite ''/tmp/results/demo-mlp-i0-results.json''
         \<lparr>res_info = ''instance'',
           res_executions = replicate 3
             \<lparr>ei_num_epochs = 3, ei_history = [], ei_loss_fn = LossStr ''mse'',
              ei_loss_weights = ''None'', ei_meta_data = []\<rparr>,
           res_meta_data = example_meta_data,
           res_metrics =
             [(''loss'',
               [(''min'', \<lparr>s_min = 1 / 4, s_max = 1 / 4, s_mean = 1 / 4, s_median = 1 / 4\<rparr>),
                (''max'', \<lparr>s_min = 1 / 2, s_max = 1 / 2, s_mean = 1 / 2, s_median = 1 / 2\<rparr>)])],
           res_key_metrics = Some [(''loss'', 1 / 4)]\<rparr>])"
  by code_simp

lemma record_results_unbound:
  assumes "get_instance_info bs = None \<or> meta_data bs = None \<or> key_metrics bs = None
           \<or> \<not> file_io bs"
  shows "\<exists>e. fst (record_results bs i) = (Inl e, [])"
  using assms
  by (auto simp: record_results_def finish_results_def Let_def
           split: option.splits sum.splits prod.splits)

lemma record_results_no_backend:
  assumes "backend bs = None"
  shows "\<exists>e eff. fst (record_results bs i) = (Inl e, eff)"
  using assms
  by (auto simp: record_results_def finish_results_def Let_def
           split: option.splits sum.splits prod.splits)

text \<open>
  C10. With the names as \<open>instance.py\<close> binds them, every call of \<open>record_results\<close>, on
  every instance, raises \<open>AttributeError\<close> at line 145: nothing is written or sent,
  no record is returned, and the instance is as it was.
\<close>

theorem record_results_always_raises:
  "record_results module_bindings i
   = ((Inl (AttributeError ''_Instance__get_instance_info''), []), i)
   \<and> record_results (bs\<lparr>get_instance_info := None\<rparr>) i
   = ((Inl (AttributeError ''_Instance__get_instance_info''), []), i)"
  by (simp add: record_results_def module_bindings_def)

text \<open>
  C6, at an instance with three executions that each report the metric \<open>loss\<close>:
  \<open>record_results\<close> raises at line 145, so no statistic of the minima or of the maxima
  is recorded.
\<close>

theorem aggregation_not_reached:
  "map snd (concat (map (\<lambda>e. ex_metrics (snd e))
      (executions (snd (fit_calls example_collaborators
         [(Array 100, split_kwargs), (Array 100, split_kwargs), (Array 100, split_kwargs)]
         (example_shared, Instance_init example_model))))))
   = [(1 / 4, 1 / 2), (1 / 4, 1 / 2), (1 / 4, 1 / 2)]
   \<and> fst (record_results caller_bindings
        (snd (fit_calls example_collaborators
           [(Array 100, split_kwargs), (Array 100, split_kwargs), (Array 100, split_kwargs)]
           (example_shared, Instance_init example_model))))
     = (Inl (AttributeError ''_Instance__get_instance_info''), [])"
  by code_simp

text \<open>
  C7, at an instance with one execution whose loss is a list with a loss object, which
  \<open>json.dumps\<close> does not take: \<open>record_results\<close> raises at line 145, no record with the
  marker \<open>CUSTOM\<close> is built.
\<close>

theorem custom_loss_not_reported:
  "map (\<lambda>e. map_option (\<lambda>m. json_serializable (loss m)) (ex_model (snd e)))
     (executions (snd (snd (fit example_collaborators (Array 100) no_kwargs
        (custom_shared, Instance_init custom_loss_model)))))
   = [Some False]
   \<and> fst (record_results caller_bindings
        (snd (snd (fit example_collaborators (Array 100) no_kwargs
           (custom_shared, Instance_init custom_loss_model)))))
     = (Inl (AttributeError ''_Instance__get_instance_info''), [])"
  by code_simp

text \<open>
  C8, at an instance with one execution that reports \<open>loss\<close>, and the key metrics
  \<open>(loss, min)\<close> and \<open>(val_acc, max)\<close> set by the caller: \<open>record_results\<close> raises at
  line 145, before the key metrics are read; nothing is copied, and the call does raise.
\<close>

theorem key_metrics_not_reached:
  "key_metrics caller_bindings = Some [(''loss'', ''min''), (''val_acc'', ''max'')]
   \<and> map (\<lambda>e. map fst (ex_metrics (snd e)))
       (executions (snd (snd (fit example_collaborators (Array 100) split_kwargs
          (example_shared, Instance_init example_model)))))
     = [[''loss'']]
   \<and> fst (record_results caller_bindings
        (snd (snd (fit example_collaborators (Array 100) split_kwargs
           (example_shared, Instance_init example_model)))))
     = (Inl (AttributeError ''_Instance__get_instance_info''), [])"
  by code_simp

text \<open>
  C9, at an instance on which two executions have been run: \<open>record_results\<close> raises
  at line 145 and produces no record, so there is no list of two entries.
\<close>

theorem no_record_for_two_executions:
  "length (executions (snd (fit_calls example_collaborators
      [(Array 100, split_kwargs), (Sequence 10, data_kwargs)]
      (example_shared, Instance_init example_model)))) = 2
   \<and> execution_trained (state (snd (fit_calls example_collaborators
      [(Array 100, split_kwargs), (Sequence 10, data_kwargs)]
      (example_shared, Instance_init example_model)))) = 2
   \<and> fst (record_results caller_bindings
        (snd (fit_calls example_collaborators
           [(Array 100, split_kwargs), (Sequence 10, data_kwargs)]
           (example_shared, Instance_init example_model))))
     = (Inl (AttributeError ''_Instance__get_instance_info''), [])"
  by code_simp

end
